theory Spec2Isabelle
  imports Complex_Main "HOL-Library.Sublist" "HOL-Library.Multiset"
begin

section \<open>Value objects\<close>

text \<open>
  Conventions of the embedding. A Python \<open>float\<close> is a real number (\<open>real\<close>) and
  arithmetic on it is exact; a Python \<open>int\<close> is an \<open>int\<close>; a \<open>UUID\<close> and a
  \<open>datetime\<close> are opaque tokens (\<open>nat\<close> and \<open>int\<close>); a \<open>str\<close> is a \<open>string\<close> of
  ASCII characters; \<open>Optional[t]\<close> is \<open>t option\<close>. The two calls that read the
  environment, \<open>uuid4()\<close> and \<open>datetime.utcnow()\<close>, become explicit arguments of the
  function that makes them. A raised exception is the left summand of the result.
\<close>

type_synonym uuid = nat
type_synonym datetime = int

datatype error = ValueError

subsection \<open>cleanliness_status.py\<close>

datatype CleanlinessStatus = CLEAN | NOT_CLEAN | REQUIRES_MANUAL_REVIEW | INSUFFICIENT_DATA

definition is_compliant :: "CleanlinessStatus \<Rightarrow> bool" where
  "is_compliant s = (s = CLEAN)"

definition requires_human_intervention :: "CleanlinessStatus \<Rightarrow> bool" where
  "requires_human_intervention s = (s = REQUIRES_MANUAL_REVIEW \<or> s = INSUFFICIENT_DATA)"

subsection \<open>String helpers: \<open>str.lower\<close>, \<open>in\<close>, \<open>str.join\<close>, \<open>format\<close>\<close>

definition lower_char :: "char \<Rightarrow> char" where
  "lower_char c =
     (case map_of (zip ''ABCDEFGHIJKLMNOPQRSTUVWXYZ'' ''abcdefghijklmnopqrstuvwxyz'') c of
        None \<Rightarrow> c
      | Some d \<Rightarrow> d)"

definition lower :: "string \<Rightarrow> string" where
  "lower s = map lower_char s"

text \<open>\<open>a in b\<close> on two strings is \<^term>\<open>sublist a b\<close>: \<open>b\<close> has \<open>a\<close> as a contiguous run.\<close>

fun join :: "string \<Rightarrow> string list \<Rightarrow> string" where
  "join sep [] = []"
| "join sep [x] = x"
| "join sep (x # y # ys) = x @ sep @ join sep (y # ys)"

definition digit_char :: "nat \<Rightarrow> char" where
  "digit_char d = ''0123456789'' ! (d mod 10)"

fun show_nat :: "nat \<Rightarrow> string" where
  "show_nat n = (if n < 10 then [digit_char n] else show_nat (n div 10) @ [digit_char (n mod 10)])"

declare show_nat.simps [simp del]

text \<open>Rounding a non-negative number to the nearest integer, ties to even.\<close>

definition round_half_even :: "real \<Rightarrow> nat" where
  "round_half_even q =
     (let f = \<lfloor>q\<rfloor>; d = q - of_int f
      in nat (if d < 1 / 2 then f else if 1 / 2 < d then f + 1
              else if even f then f else f + 1))"

text \<open>\<open>f"{v:.2f}"\<close>: sign, integer part, point, two decimals.\<close>

definition format_2f :: "real \<Rightarrow> string" where
  "format_2f v =
     (let n = round_half_even (\<bar>v\<bar> * 100)
      in (if v < 0 then ''-'' else '''')
         @ show_nat (n div 100) @ ''.''
         @ [digit_char (n mod 100 div 10), digit_char (n mod 10)])"

subsection \<open>confidence_score.py\<close>

record ConfidenceScore =
  score_value :: real

text \<open>The dataclass constructor followed by \<open>__post_init__\<close>, which validates the range.\<close>

definition new_ConfidenceScore :: "real \<Rightarrow> error + ConfidenceScore" where
  "new_ConfidenceScore v =
     (if \<not> (0 \<le> v \<and> v \<le> 100) then Inl ValueError else Inr \<lparr>score_value = v\<rparr>)"

text \<open>The scores that the constructor lets through: the invariant of the class.\<close>

definition valid_score :: "ConfidenceScore \<Rightarrow> bool" where
  "valid_score c = (0 \<le> score_value c \<and> score_value c \<le> 100)"

definition is_above_threshold :: "ConfidenceScore \<Rightarrow> real \<Rightarrow> bool" where
  "is_above_threshold c threshold = (score_value c \<ge> threshold)"

definition as_percentage :: "ConfidenceScore \<Rightarrow> string" where
  "as_percentage c = format_2f (score_value c) @ ''%''"

subsection \<open>image_metadata.py\<close>

record ImageMetadata =
  image_id :: uuid
  dealer_id :: string
  checkpoint_id :: string
  s3_bucket :: string
  s3_key :: string
  uploader_id :: string
  captured_at :: datetime
  uploaded_at :: datetime
  file_size_bytes :: int
  content_type :: string
  width_px :: "int option"
  height_px :: "int option"

text \<open>Truth value of an \<open>Optional[int]\<close> in a condition: \<open>None\<close> and \<open>0\<close> are false.\<close>

definition truthy :: "int option \<Rightarrow> bool" where
  "truthy x = (case x of None \<Rightarrow> False | Some n \<Rightarrow> n \<noteq> 0)"

definition is_valid_for_analysis :: "ImageMetadata \<Rightarrow> bool" where
  "is_valid_for_analysis m =
     (if file_size_bytes m > 15 * 1024 * 1024 then False
      else if truthy (width_px m) \<and> truthy (height_px m) then
        (case (width_px m, height_px m) of
           (Some w, Some h) \<Rightarrow> (if w < 640 \<or> h < 480 then False else True)
         | _ \<Rightarrow> True)
      else True)"

section \<open>Ports: vision_provider.py\<close>

record VisionLabel =
  name :: string
  confidence :: ConfidenceScore
  category :: string

record VisionAnalysisResult =
  labels :: "VisionLabel list"
  moderation_labels :: "VisionLabel list option"
  text_detections :: "string list option"
  provider_name :: string
  model_version :: string
  processing_time_ms :: int

section \<open>Entities: audit_result.py\<close>

record DetectedLabel =
  name :: string
  confidence :: ConfidenceScore
  is_negative :: bool

record AuditResult =
  image_metadata :: ImageMetadata
  detected_labels :: "DetectedLabel list"
  overall_confidence :: ConfidenceScore
  status :: CleanlinessStatus
  audit_id :: uuid
  negative_labels :: "DetectedLabel list"
  reason :: "string option"
  analyzed_at :: datetime
  reviewed_by :: "string option"
  reviewed_at :: "datetime option"
  manual_override :: "bool option"
  vision_provider :: string
  model_version :: "string option"

definition generate_reason :: "AuditResult \<Rightarrow> string" where
  "generate_reason self =
     (if status self = CLEAN then ''No cleanliness issues detected''
      else if status self = INSUFFICIENT_DATA then
        ''Confidence too low ('' @ as_percentage (overall_confidence self) @ '')''
      else if status self = REQUIRES_MANUAL_REVIEW then
        ''Unclear results - manual review required''
      else if negative_labels self \<noteq> [] then
        ''Issues detected: '' @ join '', '' (map DetectedLabel.name (take 3 (negative_labels self)))
      else ''Status determination unclear'')"

text \<open>\<open>not self.reason\<close> holds for \<open>None\<close> and for the empty string.\<close>

definition post_init :: "AuditResult \<Rightarrow> AuditResult" where
  "post_init self =
     (let self1 = self\<lparr>negative_labels := filter is_negative (detected_labels self)\<rparr>
      in if reason self1 = None \<or> reason self1 = Some []
         then self1\<lparr>reason := Some (generate_reason self1)\<rparr>
         else self1)"

text \<open>
  The constructor \<open>AuditResult(...)\<close> with every field given: the generated \<open>__init__\<close>
  stores the arguments, then \<open>__post_init__\<close> runs. A caller that leaves a defaulted
  argument out passes the default: \<open>[]\<close> for \<open>negative_labels\<close>, \<open>None\<close> for \<open>reason\<close>,
  \<open>reviewed_by\<close>, \<open>reviewed_at\<close>, \<open>manual_override\<close> and \<open>model_version\<close>,
  \<open>''rekognition''\<close> for \<open>vision_provider\<close>, a fresh \<open>uuid4()\<close> and \<open>utcnow()\<close>.
\<close>

definition new_AuditResult ::
  "ImageMetadata \<Rightarrow> DetectedLabel list \<Rightarrow> ConfidenceScore \<Rightarrow> CleanlinessStatus \<Rightarrow> uuid \<Rightarrow>
   DetectedLabel list \<Rightarrow> string option \<Rightarrow> datetime \<Rightarrow> string option \<Rightarrow> datetime option \<Rightarrow>
   bool option \<Rightarrow> string \<Rightarrow> string option \<Rightarrow> AuditResult" where
  "new_AuditResult md dls conf st aid negs rsn an_time rv_by rv_time mo vp mv =
     post_init \<lparr>image_metadata = md, detected_labels = dls, overall_confidence = conf,
                status = st, audit_id = aid, negative_labels = negs, reason = rsn,
                analyzed_at = an_time, reviewed_by = rv_by, reviewed_at = rv_time,
                manual_override = mo, vision_provider = vp, model_version = mv\<rparr>"

text \<open>\<open>apply_manual_override\<close> mutates \<open>self\<close>; \<open>now\<close> is what \<open>datetime.utcnow()\<close> returns.\<close>

definition apply_manual_override ::
  "AuditResult \<Rightarrow> string \<Rightarrow> bool \<Rightarrow> string \<Rightarrow> datetime \<Rightarrow> AuditResult" where
  "apply_manual_override self reviewer_id is_clean notes now =
     self\<lparr>manual_override := Some is_clean,
          status := (if is_clean then CLEAN else NOT_CLEAN),
          reviewed_by := Some reviewer_id,
          reviewed_at := Some now,
          reason := Some (''Manual override: '' @ notes)\<rparr>"

definition is_finalized :: "AuditResult \<Rightarrow> bool" where
  "is_finalized self = (reviewed_by self \<noteq> None)"

definition passes_compliance :: "AuditResult \<Rightarrow> bool" where
  "passes_compliance self = is_compliant (status self)"

definition requires_review :: "AuditResult \<Rightarrow> bool" where
  "requires_review self = requires_human_intervention (status self)"

text \<open>A run of reviews: each is one call of \<open>apply_manual_override\<close> with its clock reading.\<close>

type_synonym override_call = "string \<times> bool \<times> string \<times> datetime"

fun apply_overrides :: "AuditResult \<Rightarrow> override_call list \<Rightarrow> AuditResult" where
  "apply_overrides self [] = self"
| "apply_overrides self ((reviewer_id, is_clean, notes, now) # calls) =
     apply_overrides (apply_manual_override self reviewer_id is_clean notes now) calls"

section \<open>Domain service: cleanliness_evaluator.py\<close>

record CleanlinessRules =
  negative_labels :: "string set"
  confidence_threshold :: real
  max_negative_labels :: int
  require_review_on_low_confidence :: bool

definition default_negative_labels :: "string set" where
  "default_negative_labels =
     {''Dirt'', ''Mud'', ''Debris'', ''Trash'', ''Garbage'', ''Litter'',
      ''Waste'', ''Rubbish'', ''Clutter'', ''Mess'',
      ''Stain'', ''Graffiti'', ''Rust'', ''Corrosion'', ''Mold'', ''Mildew'',
      ''Decay'', ''Deterioration'',
      ''Insect'', ''Bug'', ''Rodent'', ''Pest'', ''Spider Web'',
      ''Disorder'', ''Disorganized'', ''Untidy'', ''Unkempt'',
      ''Spill'', ''Leak'', ''Broken Glass'', ''Sharp Object''}"

text \<open>The constructor of the rules: \<open>__post_init__\<close> replaces a \<open>None\<close> label set.\<close>

definition new_CleanlinessRules :: "string set option \<Rightarrow> real \<Rightarrow> int \<Rightarrow> bool \<Rightarrow> CleanlinessRules" where
  "new_CleanlinessRules negs thr mx rev_low =
     \<lparr>negative_labels = (case negs of None \<Rightarrow> default_negative_labels | Some s \<Rightarrow> s),
      confidence_threshold = thr, max_negative_labels = mx,
      require_review_on_low_confidence = rev_low\<rparr>"

definition default_rules :: CleanlinessRules where
  "default_rules = new_CleanlinessRules None 80 0 True"

definition is_negative_label :: "CleanlinessRules \<Rightarrow> string \<Rightarrow> bool" where
  "is_negative_label rules label_name =
     (let label_lower = lower label_name
      in \<exists>neg_label \<in> CleanlinessRules.negative_labels rules. sublist (lower neg_label) label_lower)"

definition convert_labels :: "CleanlinessRules \<Rightarrow> VisionLabel list \<Rightarrow> DetectedLabel list" where
  "convert_labels rules vision_labels =
     map (\<lambda>label. \<lparr>DetectedLabel.name = VisionLabel.name label,
                   confidence = VisionLabel.confidence label,
                   is_negative = is_negative_label rules (VisionLabel.name label)\<rparr>)
         vision_labels"

definition identify_negative_labels :: "DetectedLabel list \<Rightarrow> DetectedLabel list" where
  "identify_negative_labels ls = filter is_negative ls"

text \<open>
  \<open>sorted(labels, key=k, reverse=True)\<close> is the stable sort by descending key, which is
  the stable ascending sort by the negated key.
\<close>

definition label_value :: "DetectedLabel \<Rightarrow> real" where
  "label_value l = score_value (DetectedLabel.confidence l)"

definition calculate_overall_confidence :: "DetectedLabel list \<Rightarrow> error + ConfidenceScore" where
  "calculate_overall_confidence ls =
     (if ls = [] then new_ConfidenceScore 0
      else let top_labels = take 5 (sort_key (\<lambda>x. - label_value x) ls);
               avg_confidence = sum_list (map label_value top_labels) / of_nat (length top_labels)
           in new_ConfidenceScore avg_confidence)"

definition determine_status ::
  "CleanlinessRules \<Rightarrow> DetectedLabel list \<Rightarrow> ConfidenceScore \<Rightarrow> bool option \<Rightarrow> CleanlinessStatus" where
  "determine_status rules negs conf mo =
     (case mo of
        Some b \<Rightarrow> (if b then CLEAN else NOT_CLEAN)
      | None \<Rightarrow>
          if \<not> is_above_threshold conf (confidence_threshold rules) then
            (if require_review_on_low_confidence rules then REQUIRES_MANUAL_REVIEW
             else INSUFFICIENT_DATA)
          else if int (length negs) > max_negative_labels rules then NOT_CLEAN
          else if negs \<noteq> [] then NOT_CLEAN
          else CLEAN)"

text \<open>
  \<open>evaluate\<close>: the five steps of the method. The identity and the analysis time default
  in the \<open>AuditResult\<close> constructor; \<open>fresh_id\<close> and \<open>now\<close> are the values drawn there.
\<close>

definition evaluate ::
  "CleanlinessRules \<Rightarrow> VisionAnalysisResult \<Rightarrow> ImageMetadata \<Rightarrow> bool option \<Rightarrow>
   uuid \<Rightarrow> datetime \<Rightarrow> error + AuditResult" where
  "evaluate rules vision_result md mo fresh_id now =
     (let dls = convert_labels rules (labels vision_result)
      in case calculate_overall_confidence dls of
           Inl e \<Rightarrow> Inl e
         | Inr conf \<Rightarrow>
             let negs = identify_negative_labels dls;
                 st = determine_status rules negs conf mo
             in Inr (new_AuditResult md dls conf st fresh_id negs None now None None mo
                       (provider_name vision_result)
                       (Some (VisionAnalysisResult.model_version vision_result))))"

text \<open>A vision result as the port delivers it: every label carries a constructed score.\<close>

definition valid_vision_result :: "VisionAnalysisResult \<Rightarrow> bool" where
  "valid_vision_result vr = list_all (\<lambda>l. valid_score (VisionLabel.confidence l)) (labels vr)"

section \<open>Specification-side notions and sample inputs\<close>

text \<open>
  The aggregate confidence as the specification words it, on the bare confidence values:
  sort them in descending order, keep at most five, average; zero when there are none.
\<close>

definition spec_aggregate_confidence :: "real list \<Rightarrow> real" where
  "spec_aggregate_confidence vs =
     (if vs = [] then 0
      else let top = take 5 (rev (sort vs)) in sum_list top / of_nat (length top))"

text \<open>A label name matches the rules: lower-cased, it contains a lower-cased negative term.\<close>

definition name_matches :: "CleanlinessRules \<Rightarrow> string \<Rightarrow> bool" where
  "name_matches rules n =
     (\<exists>t \<in> CleanlinessRules.negative_labels rules. sublist (lower t) (lower n))"

text \<open>The two invariants of the aggregate: derived negative labels, non-empty reason.\<close>

definition audit_invariant :: "AuditResult \<Rightarrow> bool" where
  "audit_invariant r =
     (AuditResult.negative_labels r = filter is_negative (detected_labels r)
      \<and> reason r \<noteq> None \<and> reason r \<noteq> Some [])"

definition mk_label :: "string \<Rightarrow> real \<Rightarrow> VisionLabel" where
  "mk_label n v = \<lparr>VisionLabel.name = n, confidence = \<lparr>score_value = v\<rparr>, category = ''general''\<rparr>"

definition mk_result :: "VisionLabel list \<Rightarrow> VisionAnalysisResult" where
  "mk_result ls = \<lparr>labels = ls, moderation_labels = None, text_detections = None,
                   provider_name = ''rekognition'', model_version = ''3.0'',
                   processing_time_ms = 120\<rparr>"

definition md0 :: ImageMetadata where
  "md0 = \<lparr>image_id = 7, dealer_id = ''D1'', checkpoint_id = ''Entrance'',
          s3_bucket = ''audits'', s3_key = ''d1/entrance.jpg'', uploader_id = ''u1'',
          captured_at = 1000, uploaded_at = 1001, file_size_bytes = 2048,
          content_type = ''image/jpeg'', width_px = Some 1920, height_px = Some 1080\<rparr>"

definition vr_trash :: VisionAnalysisResult where
  "vr_trash = mk_result [mk_label ''Trash'' 92]"

definition vr_car40 :: VisionAnalysisResult where
  "vr_car40 = mk_result [mk_label ''Car'' 40]"

definition vr_car80 :: VisionAnalysisResult where
  "vr_car80 = mk_result [mk_label ''Car'' 80]"

definition vr_six :: VisionAnalysisResult where
  "vr_six = mk_result [mk_label ''Car'' 95, mk_label ''Tire'' 90, mk_label ''Wheel'' 85,
                       mk_label ''Floor'' 80, mk_label ''Wall'' 75, mk_label ''Door'' 10]"

definition vr_empty :: VisionAnalysisResult where
  "vr_empty = mk_result []"

definition vr_glass :: VisionAnalysisResult where
  "vr_glass = mk_result [mk_label ''Broken Glass Spill'' 91, mk_label ''Car'' 95]"

definition rules_no_review :: CleanlinessRules where
  "rules_no_review = new_CleanlinessRules None 80 0 False"

definition rules_tolerant :: CleanlinessRules where
  "rules_tolerant = new_CleanlinessRules None 80 2 True"

definition audit0 :: AuditResult where
  "audit0 = new_AuditResult md0 [] \<lparr>score_value = 0\<rparr> REQUIRES_MANUAL_REVIEW 1 [] None 0
              None None None ''rekognition'' None"

section \<open>Auxiliary facts\<close>

subsection \<open>Formatting\<close>

lemma show_nat_small: "n < 10 \<Longrightarrow> show_nat n = [digit_char n]"
  by (subst show_nat.simps) simp

lemma show_nat_large: "10 \<le> n \<Longrightarrow> show_nat n = show_nat (n div 10) @ [digit_char (n mod 10)]"
  by (subst show_nat.simps) simp

lemma as_percentage_samples:
  "as_percentage \<lparr>score_value = 0\<rparr> = ''0.00%''"
  "as_percentage \<lparr>score_value = 100\<rparr> = ''100.00%''"
  "as_percentage \<lparr>score_value = 1 / 8\<rparr> = ''0.12%''"
  "as_percentage \<lparr>score_value = 45678 / 1000\<rparr> = ''45.68%''"
  by (simp_all add: as_percentage_def format_2f_def round_half_even_def Let_def
        show_nat_small show_nat_large digit_char_def)

subsection \<open>The aggregate invariant\<close>

lemma generate_reason_nonempty: "generate_reason self \<noteq> []"
  by (simp add: generate_reason_def)

lemma post_init_invariant: "audit_invariant (post_init self)"
  by (simp add: post_init_def audit_invariant_def Let_def generate_reason_nonempty)

lemma apply_manual_override_invariant:
  "audit_invariant self \<Longrightarrow>
   audit_invariant (apply_manual_override self reviewer_id is_clean msg now)"
  by (simp add: audit_invariant_def apply_manual_override_def)

lemma apply_overrides_invariant:
  "audit_invariant self \<Longrightarrow> audit_invariant (apply_overrides self calls)"
proof (induction calls arbitrary: self)
  case Nil
  then show ?case by simp
next
  case (Cons c calls)
  obtain reviewer_id is_clean msg now where c: "c = (reviewer_id, is_clean, msg, now)"
    by (cases c) auto
  from Cons.prems have "audit_invariant (apply_manual_override self reviewer_id is_clean msg now)"
    by (rule apply_manual_override_invariant)
  then show ?case unfolding c by (simp add: Cons.IH)
qed

lemma post_init_fields:
  "status (post_init self) = status self"
  "detected_labels (post_init self) = detected_labels self"
  "overall_confidence (post_init self) = overall_confidence self"
  "AuditResult.negative_labels (post_init self) = filter is_negative (detected_labels self)"
  "manual_override (post_init self) = manual_override self"
  by (simp_all add: post_init_def Let_def)

subsection \<open>The mean of the five best scores\<close>

lemma sum_list_bounds:
  fixes xs :: "real list"
  assumes "\<forall>x \<in> set xs. 0 \<le> x \<and> x \<le> 100"
  shows "0 \<le> sum_list xs \<and> sum_list xs \<le> 100 * of_nat (length xs)"
  using assms by (induction xs) (auto simp: algebra_simps)

lemma mean_bounds:
  fixes xs :: "real list"
  assumes "\<forall>x \<in> set xs. 0 \<le> x \<and> x \<le> 100" and "xs \<noteq> []"
  shows "0 \<le> sum_list xs / of_nat (length xs) \<and> sum_list xs / of_nat (length xs) \<le> 100"
proof -
  have n: "(0::real) < of_nat (length xs)" using assms(2) by simp
  from sum_list_bounds [OF assms(1)] n show ?thesis
    by (simp add: divide_le_eq)
qed

lemma sort_map_uminus:
  fixes ys :: "real list"
  shows "sort (map uminus ys) = map uminus (rev (sort ys))"
proof (rule properties_for_sort)
  show "mset (map uminus (rev (sort ys))) = mset (map uminus ys)"
    by simp
  have "sorted_wrt (\<lambda>x y. - y \<le> - x) (sort ys)"
    using sorted_sort [of ys] by simp
  then show "sorted (map uminus (rev (sort ys)))"
    by (simp add: sorted_map sorted_wrt_rev)
qed

lemma map_sort_key:
  fixes g :: "'a \<Rightarrow> real"
  shows "map g (sort_key g xs) = sort (map g xs)"
  by (rule properties_for_sort [symmetric]) simp_all

lemma map_sort_key_desc:
  fixes f :: "'a \<Rightarrow> real"
  shows "map f (sort_key (\<lambda>x. - f x) xs) = rev (sort (map f xs))"
proof -
  have e: "map (\<lambda>x. - f x) xs = map uminus (map f xs)"
    by simp
  have "map f (sort_key (\<lambda>x. - f x) xs)
          = map uminus (map (\<lambda>x. - f x) (sort_key (\<lambda>x. - f x) xs))"
    by (simp add: comp_def)
  also have "\<dots> = map uminus (sort (map (\<lambda>x. - f x) xs))"
    by (simp only: map_sort_key)
  also have "\<dots> = map uminus (map uminus (rev (sort (map f xs))))"
    by (simp only: e sort_map_uminus)
  also have "\<dots> = rev (sort (map f xs))"
    by (simp add: comp_def)
  finally show ?thesis .
qed

lemma new_ConfidenceScore_ok:
  "0 \<le> v \<and> v \<le> 100 \<Longrightarrow> new_ConfidenceScore v = Inr \<lparr>score_value = v\<rparr>"
  by (simp add: new_ConfidenceScore_def)

lemma calculate_overall_confidence_eq:
  assumes "\<forall>v \<in> set (map label_value ls). 0 \<le> v \<and> v \<le> 100"
  shows "calculate_overall_confidence ls
           = Inr \<lparr>score_value = spec_aggregate_confidence (map label_value ls)\<rparr>"
proof (cases "ls = []")
  case True
  then show ?thesis
    by (simp add: calculate_overall_confidence_def spec_aggregate_confidence_def
          new_ConfidenceScore_def)
next
  case False
  define top where "top = take 5 (sort_key (\<lambda>x. - label_value x) ls)"
  have top: "map label_value top = take 5 (rev (sort (map label_value ls)))"
    unfolding top_def by (simp only: take_map [symmetric] map_sort_key_desc)
  have "length (sort_key (\<lambda>x. - label_value x) ls) = length ls"
    by (rule length_sort)
  with False have ne: "map label_value top \<noteq> []"
    unfolding top_def by (cases "sort_key (\<lambda>x. - label_value x) ls") auto
  have "set top \<subseteq> set ls"
    unfolding top_def using set_take_subset [of 5 "sort_key (\<lambda>x. - label_value x) ls"]
    by simp
  with assms have bounded: "\<forall>v \<in> set (map label_value top). 0 \<le> v \<and> v \<le> 100"
    by auto
  have len: "length top = length (map label_value top)"
    by simp
  from mean_bounds [OF bounded ne]
  have "0 \<le> sum_list (map label_value top) / of_nat (length top)
        \<and> sum_list (map label_value top) / of_nat (length top) \<le> 100"
    by (simp only: len)
  then have ok: "new_ConfidenceScore (sum_list (map label_value top) / of_nat (length top))
               = Inr \<lparr>score_value = sum_list (map label_value top) / of_nat (length top)\<rparr>"
    by (rule new_ConfidenceScore_ok)
  have c: "calculate_overall_confidence ls
          = new_ConfidenceScore (sum_list (map label_value top) / of_nat (length top))"
    using False by (simp only: calculate_overall_confidence_def Let_def top_def if_False)
  have "spec_aggregate_confidence (map label_value ls)
          = sum_list (map label_value top) / of_nat (length (map label_value top))"
    using False by (simp only: top spec_aggregate_confidence_def Let_def map_is_Nil_conv if_False)
  then have s: "spec_aggregate_confidence (map label_value ls)
          = sum_list (map label_value top) / of_nat (length top)"
    by (simp only: len)
  show ?thesis
    by (simp only: c ok s)
qed

subsection \<open>Label conversion and the shape of \<open>evaluate\<close>\<close>

lemma convert_labels_valid:
  "valid_vision_result vr \<Longrightarrow>
   \<forall>v \<in> set (map label_value (convert_labels rules (labels vr))). 0 \<le> v \<and> v \<le> 100"
  by (auto simp: valid_vision_result_def convert_labels_def label_value_def valid_score_def
        list_all_iff)

lemma label_value_convert:
  "map label_value (convert_labels rules ls) = map (\<lambda>l. score_value (VisionLabel.confidence l)) ls"
  by (simp add: convert_labels_def label_value_def comp_def)

lemma convert_labels_fields:
  "map DetectedLabel.name (convert_labels rules ls) = map VisionLabel.name ls"
  "map DetectedLabel.confidence (convert_labels rules ls) = map VisionLabel.confidence ls"
  by (simp_all add: convert_labels_def comp_def)

lemma is_negative_label_matches: "is_negative_label rules n = name_matches rules n"
  by (simp add: is_negative_label_def name_matches_def Let_def)

lemma filter_convert_labels:
  "filter is_negative (convert_labels rules ls)
     = filter (\<lambda>d. is_negative_label rules (DetectedLabel.name d)) (convert_labels rules ls)"
  by (rule filter_cong) (auto simp: convert_labels_def)

lemma length_filter_matches:
  "length (filter (\<lambda>d. name_matches rules (DetectedLabel.name d)) (convert_labels rules ls))
     = length (filter (\<lambda>l. name_matches rules (VisionLabel.name l)) ls)"
  by (simp add: convert_labels_def filter_map comp_def)

lemma convert_labels_same_terms:
  "CleanlinessRules.negative_labels rules = CleanlinessRules.negative_labels rules'
   \<Longrightarrow> convert_labels rules ls = convert_labels rules' ls"
  by (simp add: convert_labels_def is_negative_label_def)

lemma evaluate_eq:
  assumes "valid_vision_result vr"
  shows "evaluate rules vr md mo fresh_id now
           = Inr (new_AuditResult md (convert_labels rules (labels vr))
                    \<lparr>score_value = spec_aggregate_confidence
                                      (map label_value (convert_labels rules (labels vr)))\<rparr>
                    (determine_status rules
                       (identify_negative_labels (convert_labels rules (labels vr)))
                       \<lparr>score_value = spec_aggregate_confidence
                                         (map label_value (convert_labels rules (labels vr)))\<rparr>
                       mo)
                    fresh_id (identify_negative_labels (convert_labels rules (labels vr)))
                    None now None None mo (provider_name vr)
                    (Some (VisionAnalysisResult.model_version vr)))"
  using calculate_overall_confidence_eq [OF convert_labels_valid [OF assms, of rules]]
  by (simp add: evaluate_def Let_def)

lemma evaluate_confidence:
  assumes "valid_vision_result vr" and "evaluate rules vr md mo fresh_id now = Inr r"
  shows "score_value (overall_confidence r)
           = spec_aggregate_confidence (map (\<lambda>l. score_value (VisionLabel.confidence l)) (labels vr))"
  using assms(2)
  by (auto simp: evaluate_eq [OF assms(1)] new_AuditResult_def post_init_fields label_value_convert)

lemma evaluate_detected_labels:
  assumes "valid_vision_result vr" and "evaluate rules vr md mo fresh_id now = Inr r"
  shows "detected_labels r = convert_labels rules (labels vr)"
  using assms(2)
  by (auto simp: evaluate_eq [OF assms(1)] new_AuditResult_def post_init_fields)

lemma determine_status_any_negative:
  "is_above_threshold conf (confidence_threshold rules) \<Longrightarrow> negs \<noteq> []
   \<Longrightarrow> determine_status rules negs conf None = NOT_CLEAN"
  by (simp add: determine_status_def)

lemma is_valid_for_analysis_iff:
  "is_valid_for_analysis m
     = (file_size_bytes m \<le> 15 * 1024 * 1024
        \<and> (case (width_px m, height_px m) of
             (Some w, Some h) \<Rightarrow> w = 0 \<or> h = 0 \<or> (640 \<le> w \<and> 480 \<le> h)
           | _ \<Rightarrow> True))"
  by (auto simp: is_valid_for_analysis_def truthy_def split: option.splits)

subsection \<open>The sample inputs\<close>

lemmas test_inputs = vr_car40_def vr_car80_def vr_six_def vr_empty_def vr_glass_def vr_trash_def
  mk_result_def mk_label_def

lemma valid_inputs:
  "valid_vision_result vr_car40" "valid_vision_result vr_car80" "valid_vision_result vr_six"
  "valid_vision_result vr_empty" "valid_vision_result vr_glass" "valid_vision_result vr_trash"
  by (simp_all add: test_inputs valid_vision_result_def valid_score_def)

lemma default_rules_fields:
  "confidence_threshold default_rules = 80"
  "max_negative_labels default_rules = 0"
  "require_review_on_low_confidence default_rules = True"
  by (simp_all add: default_rules_def new_CleanlinessRules_def)

lemma rules_fields:
  "confidence_threshold rules_no_review = 80"
  "require_review_on_low_confidence rules_no_review = False"
  "confidence_threshold rules_tolerant = 80"
  "max_negative_labels rules_tolerant = 2"
  "require_review_on_low_confidence rules_tolerant = True"
  "CleanlinessRules.negative_labels rules_tolerant = CleanlinessRules.negative_labels default_rules"
  by (simp_all add: rules_no_review_def rules_tolerant_def default_rules_def new_CleanlinessRules_def)

lemma is_neg_trash: "is_negative_label default_rules ''Trash''"
  by code_simp

lemma is_neg_car: "\<not> is_negative_label default_rules ''Car''"
  by code_simp

lemma is_neg_glass: "is_negative_label default_rules ''Broken Glass Spill''"
  by code_simp

lemma glass_two_terms:
  "sublist (lower ''Spill'') (lower ''Broken Glass Spill'')
   \<and> sublist (lower ''Broken Glass'') (lower ''Broken Glass Spill'')
   \<and> ''Spill'' \<in> CleanlinessRules.negative_labels default_rules
   \<and> ''Broken Glass'' \<in> CleanlinessRules.negative_labels default_rules"
  by code_simp

lemma conv_trash:
  "convert_labels default_rules (labels vr_trash)
     = [\<lparr>DetectedLabel.name = ''Trash'', confidence = \<lparr>score_value = 92\<rparr>, is_negative = True\<rparr>]"
  by (simp add: convert_labels_def test_inputs is_neg_trash)

lemma conv_trash_tolerant:
  "convert_labels rules_tolerant (labels vr_trash)
     = [\<lparr>DetectedLabel.name = ''Trash'', confidence = \<lparr>score_value = 92\<rparr>, is_negative = True\<rparr>]"
  using convert_labels_same_terms [OF rules_fields(6)] conv_trash by simp

lemma agg92: "spec_aggregate_confidence [92] = 92"
  by (simp add: spec_aggregate_confidence_def)

section \<open>The status decision\<close>

text \<open>
  C1. With a manual override the result of \<open>evaluate\<close> has status \<open>CLEAN\<close> for \<open>True\<close> and
  \<open>NOT_CLEAN\<close> for \<open>False\<close>, whatever the rules, the labels and the metadata; the decision
  itself returns at its first rule, for any negative labels and any confidence.
\<close>

theorem evaluate_manual_override_wins:
  assumes "valid_vision_result vr"
  shows "(\<exists>r. evaluate rules vr md (Some True) fresh_id now = Inr r \<and> status r = CLEAN)
       \<and> (\<exists>r. evaluate rules vr md (Some False) fresh_id now = Inr r \<and> status r = NOT_CLEAN)
       \<and> determine_status rules negs conf (Some b) = (if b then CLEAN else NOT_CLEAN)"
  by (simp add: evaluate_eq [OF assms] new_AuditResult_def post_init_fields determine_status_def)

theorem evaluate_manual_override_wins_witness:
  "valid_vision_result vr_trash
   \<and> (\<exists>r. evaluate default_rules vr_trash md0 (Some True) 1 0 = Inr r \<and> status r = CLEAN)
   \<and> (\<exists>r. evaluate default_rules vr_trash md0 (Some False) 1 0 = Inr r \<and> status r = NOT_CLEAN)"
proof -
  have h: "valid_vision_result vr_trash"
    by (simp add: valid_vision_result_def test_inputs valid_score_def)
  from evaluate_manual_override_wins [OF h, of default_rules md0 1 0] h show ?thesis
    by blast
qed

text \<open>
  C2. The claim: with no override and enough confidence, a count of negative labels between
  1 and \<open>max_negative_labels = k > 0\<close> is tolerated. The code, evaluated on one
  \<open>Trash\<close> label at 92 under a tolerance of 2 and a threshold of 80: one negative label,
  confidence 92, and the status is \<open>NOT_CLEAN\<close>, by the rule that follows the count check.
\<close>

theorem evaluate_one_negative_within_tolerance:
  "max_negative_labels rules_tolerant = 2
   \<and> map_sum id (\<lambda>r. length (AuditResult.negative_labels r))
        (evaluate rules_tolerant vr_trash md0 None 1 0) = Inr 1
   \<and> map_sum id (\<lambda>r. score_value (overall_confidence r))
        (evaluate rules_tolerant vr_trash md0 None 1 0) = Inr 92
   \<and> map_sum id status (evaluate rules_tolerant vr_trash md0 None 1 0) = Inr NOT_CLEAN"
  by (simp add: evaluate_eq [OF valid_inputs(6)] conv_trash_tolerant new_AuditResult_def
        post_init_fields determine_status_def identify_negative_labels_def label_value_def
        agg92 is_above_threshold_def rules_fields)

text \<open>
  C3. With no override, an aggregate confidence strictly below the threshold gives
  \<open>REQUIRES_MANUAL_REVIEW\<close> when \<open>require_review_on_low_confidence\<close> is set and
  \<open>INSUFFICIENT_DATA\<close> when it is not; a confidence at or above the threshold, and so one
  equal to it, gives neither of the two; the comparison of the score is \<open>value >= threshold\<close>.
\<close>

theorem evaluate_low_confidence:
  assumes "valid_vision_result vr"
  shows "\<exists>r. evaluate rules vr md None fresh_id now = Inr r
           \<and> (if score_value (overall_confidence r) < confidence_threshold rules
               then status r = (if require_review_on_low_confidence rules
                                then REQUIRES_MANUAL_REVIEW else INSUFFICIENT_DATA)
               else status r = CLEAN \<or> status r = NOT_CLEAN)
           \<and> is_above_threshold (overall_confidence r) (confidence_threshold rules)
               = (score_value (overall_confidence r) \<ge> confidence_threshold rules)"
  by (simp add: evaluate_eq [OF assms] new_AuditResult_def post_init_fields
        determine_status_def is_above_threshold_def not_le)

theorem evaluate_low_confidence_witness:
  "valid_vision_result vr_car40
   \<and> (\<exists>r. evaluate default_rules vr_car40 md0 None 1 0 = Inr r
          \<and> score_value (overall_confidence r) < confidence_threshold default_rules
          \<and> status r = REQUIRES_MANUAL_REVIEW)
   \<and> (\<exists>r. evaluate rules_no_review vr_car40 md0 None 1 0 = Inr r
          \<and> score_value (overall_confidence r) < confidence_threshold rules_no_review
          \<and> status r = INSUFFICIENT_DATA)
   \<and> valid_vision_result vr_car80
   \<and> (\<exists>r. evaluate default_rules vr_car80 md0 None 1 0 = Inr r
          \<and> score_value (overall_confidence r) = confidence_threshold default_rules
          \<and> (status r = CLEAN \<or> status r = NOT_CLEAN))"
proof -
  have a40: "spec_aggregate_confidence
               (map (\<lambda>l. score_value (VisionLabel.confidence l)) (labels vr_car40)) = 40"
    by (simp add: test_inputs spec_aggregate_confidence_def)
  have a80: "spec_aggregate_confidence
               (map (\<lambda>l. score_value (VisionLabel.confidence l)) (labels vr_car80)) = 80"
    by (simp add: test_inputs spec_aggregate_confidence_def)
  obtain r1 where r1: "evaluate default_rules vr_car40 md0 None 1 0 = Inr r1"
    and s1: "if score_value (overall_confidence r1) < confidence_threshold default_rules
             then status r1 = (if require_review_on_low_confidence default_rules
                               then REQUIRES_MANUAL_REVIEW else INSUFFICIENT_DATA)
             else status r1 = CLEAN \<or> status r1 = NOT_CLEAN"
    using evaluate_low_confidence [OF valid_inputs(1), of default_rules md0 1 0] by blast
  have c1: "score_value (overall_confidence r1) = 40"
    using evaluate_confidence [OF valid_inputs(1) r1] a40 by simp
  obtain r2 where r2: "evaluate rules_no_review vr_car40 md0 None 1 0 = Inr r2"
    and s2: "if score_value (overall_confidence r2) < confidence_threshold rules_no_review
             then status r2 = (if require_review_on_low_confidence rules_no_review
                               then REQUIRES_MANUAL_REVIEW else INSUFFICIENT_DATA)
             else status r2 = CLEAN \<or> status r2 = NOT_CLEAN"
    using evaluate_low_confidence [OF valid_inputs(1), of rules_no_review md0 1 0] by blast
  have c2: "score_value (overall_confidence r2) = 40"
    using evaluate_confidence [OF valid_inputs(1) r2] a40 by simp
  obtain r3 where r3: "evaluate default_rules vr_car80 md0 None 1 0 = Inr r3"
    and s3: "if score_value (overall_confidence r3) < confidence_threshold default_rules
             then status r3 = (if require_review_on_low_confidence default_rules
                               then REQUIRES_MANUAL_REVIEW else INSUFFICIENT_DATA)
             else status r3 = CLEAN \<or> status r3 = NOT_CLEAN"
    using evaluate_low_confidence [OF valid_inputs(2), of default_rules md0 1 0] by blast
  have c3: "score_value (overall_confidence r3) = 80"
    using evaluate_confidence [OF valid_inputs(2) r3] a80 by simp
  from s1 c1 have t1: "status r1 = REQUIRES_MANUAL_REVIEW"
    by (simp add: default_rules_fields)
  from s2 c2 have t2: "status r2 = INSUFFICIENT_DATA"
    by (simp add: rules_fields)
  from s3 c3 have t3: "status r3 = CLEAN \<or> status r3 = NOT_CLEAN"
    by (simp add: default_rules_fields)
  show ?thesis
    using valid_inputs(1,2) r1 c1 t1 r2 c2 t2 r3 c3 t3
    by (simp add: default_rules_fields rules_fields)
qed

section \<open>Confidence aggregation and negative labels\<close>

text \<open>
  C4. The aggregate confidence of an evaluation is the mean of the at most five highest
  confidence values of the labels, taken after sorting in descending order, and it is 0
  for the empty label list. On the confidences 95, 90, 85, 80, 75, 10 it is 85 (second
  theorem below, which applies the first at that input).
\<close>

theorem evaluate_overall_confidence:
  assumes "valid_vision_result vr"
  shows "\<exists>r. evaluate rules vr md mo fresh_id now = Inr r
           \<and> score_value (overall_confidence r)
               = spec_aggregate_confidence (map (\<lambda>l. score_value (VisionLabel.confidence l)) (labels vr))
           \<and> (labels vr = [] \<longrightarrow> score_value (overall_confidence r) = 0)"
  by (simp add: evaluate_eq [OF assms] new_AuditResult_def post_init_fields
        label_value_convert spec_aggregate_confidence_def)

theorem evaluate_overall_confidence_witness:
  "valid_vision_result vr_six
   \<and> (\<exists>r. evaluate default_rules vr_six md0 None 1 0 = Inr r
          \<and> score_value (overall_confidence r) = 85)
   \<and> valid_vision_result vr_empty \<and> labels vr_empty = []
   \<and> (\<exists>r. evaluate default_rules vr_empty md0 None 1 0 = Inr r
          \<and> score_value (overall_confidence r) = 0)"
proof -
  have a6: "spec_aggregate_confidence
              (map (\<lambda>l. score_value (VisionLabel.confidence l)) (labels vr_six)) = 85"
    by (simp add: test_inputs spec_aggregate_confidence_def)
  have e: "labels vr_empty = []"
    by (simp add: test_inputs)
  from evaluate_overall_confidence [OF valid_inputs(3), of default_rules md0 None 1 0] a6
  have six: "\<exists>r. evaluate default_rules vr_six md0 None 1 0 = Inr r
                \<and> score_value (overall_confidence r) = 85"
    by auto
  from evaluate_overall_confidence [OF valid_inputs(4), of default_rules md0 None 1 0] e
  have emp: "\<exists>r. evaluate default_rules vr_empty md0 None 1 0 = Inr r
                \<and> score_value (overall_confidence r) = 0"
    by auto
  from six emp e valid_inputs(3,4) show ?thesis
    by simp
qed

text \<open>
  C5. The negative labels of an evaluation are exactly the detected labels whose name,
  lower-cased, contains a lower-cased negative term of the rules; there are as many of them
  as vision labels with such a name, so a label matched by several terms is counted once;
  the detected labels carry the names and the confidences of the vision labels, in order.
\<close>

theorem evaluate_negative_labels:
  assumes "valid_vision_result vr"
  shows "\<exists>r. evaluate rules vr md mo fresh_id now = Inr r
           \<and> AuditResult.negative_labels r
               = filter (\<lambda>d. name_matches rules (DetectedLabel.name d)) (detected_labels r)
           \<and> length (AuditResult.negative_labels r)
               = length (filter (\<lambda>l. name_matches rules (VisionLabel.name l)) (labels vr))
           \<and> map DetectedLabel.name (detected_labels r) = map VisionLabel.name (labels vr)
           \<and> map DetectedLabel.confidence (detected_labels r)
               = map VisionLabel.confidence (labels vr)"
  by (simp add: evaluate_eq [OF assms] new_AuditResult_def post_init_fields
        convert_labels_fields length_filter_matches
        filter_convert_labels is_negative_label_matches)

theorem evaluate_negative_labels_witness:
  "valid_vision_result vr_glass
   \<and> (\<exists>r. evaluate default_rules vr_glass md0 None 1 0 = Inr r
          \<and> AuditResult.negative_labels r
              = [\<lparr>DetectedLabel.name = ''Broken Glass Spill'', confidence = \<lparr>score_value = 91\<rparr>,
                  is_negative = True\<rparr>]
          \<and> map DetectedLabel.name (detected_labels r) = [''Broken Glass Spill'', ''Car''])"
proof -
  obtain r where r: "evaluate default_rules vr_glass md0 None 1 0 = Inr r"
    and n: "AuditResult.negative_labels r
              = filter (\<lambda>d. name_matches default_rules (DetectedLabel.name d)) (detected_labels r)"
    and m: "map DetectedLabel.name (detected_labels r) = map VisionLabel.name (labels vr_glass)"
    using evaluate_negative_labels [OF valid_inputs(5), of default_rules md0 None 1 0] by blast
  have d: "detected_labels r
             = [\<lparr>DetectedLabel.name = ''Broken Glass Spill'', confidence = \<lparr>score_value = 91\<rparr>,
                 is_negative = True\<rparr>,
                \<lparr>DetectedLabel.name = ''Car'', confidence = \<lparr>score_value = 95\<rparr>,
                 is_negative = False\<rparr>]"
    by (simp add: evaluate_detected_labels [OF valid_inputs(5) r] convert_labels_def test_inputs
          is_neg_glass is_neg_car)
  have "AuditResult.negative_labels r
          = [\<lparr>DetectedLabel.name = ''Broken Glass Spill'', confidence = \<lparr>score_value = 91\<rparr>,
              is_negative = True\<rparr>]"
    by (simp add: n d is_negative_label_matches [symmetric] is_neg_glass is_neg_car)
  with r m valid_inputs(5) show ?thesis
    by (simp add: test_inputs)
qed

section \<open>The audit result\<close>

text \<open>
  C6, as the claim states it, fails: \<open>evaluate\<close> takes no notes, and with a manual override
  of \<open>True\<close> on one \<open>Trash\<close> label the override is recorded while the reason is the message
  generated from the status, which does not start with \<open>Manual override: \<close>.
\<close>

theorem evaluate_override_reason_counterexample:
  "map_sum id manual_override (evaluate default_rules vr_trash md0 (Some True) 1 0) = Inr (Some True)
   \<and> map_sum id reason (evaluate default_rules vr_trash md0 (Some True) 1 0)
       = Inr (Some ''No cleanliness issues detected'')
   \<and> \<not> prefix ''Manual override: '' ''No cleanliness issues detected''"
  by (simp add: evaluate_eq [OF valid_inputs(6)] conv_trash new_AuditResult_def post_init_def
        Let_def generate_reason_def determine_status_def identify_negative_labels_def)

text \<open>
  C6, amended. After \<open>apply_manual_override\<close> the reason is \<open>Manual override: \<close> followed by
  the notes. A manual override given to \<open>evaluate\<close> is recorded and decides the status, and
  the reason is the message generated from that status: the fixed no-issues message for
  \<open>True\<close>; for \<open>False\<close> the list of the first three negative label names when there is a
  negative label, and the status-unclear message when there is none.
\<close>

theorem manual_override_reason:
  assumes "valid_vision_result vr"
  shows "reason (apply_manual_override self reviewer_id is_clean notes t)
           = Some (''Manual override: '' @ notes)
       \<and> (\<exists>r. evaluate rules vr md (Some b) fresh_id now = Inr r
              \<and> manual_override r = Some b
              \<and> reason r
                  = Some (if b then ''No cleanliness issues detected''
                          else if AuditResult.negative_labels r \<noteq> [] then
                            ''Issues detected: ''
                              @ join '', '' (map DetectedLabel.name (take 3 (AuditResult.negative_labels r)))
                          else ''Status determination unclear''))"
  by (simp add: apply_manual_override_def evaluate_eq [OF assms] new_AuditResult_def post_init_def
        Let_def generate_reason_def determine_status_def)

theorem manual_override_reason_witness:
  "valid_vision_result vr_trash
   \<and> reason (apply_manual_override audit0 ''auditor-7'' True ''floor was mopped'' 5)
       = Some ''Manual override: floor was mopped''
   \<and> (\<exists>r. evaluate default_rules vr_trash md0 (Some False) 1 0 = Inr r
          \<and> manual_override r = Some False
          \<and> reason r = Some ''Issues detected: Trash'')"
proof -
  obtain r where r: "evaluate default_rules vr_trash md0 (Some False) 1 0 = Inr r"
    and m: "manual_override r = Some False"
    and s: "reason r
              = Some (if False then ''No cleanliness issues detected''
                      else if AuditResult.negative_labels r \<noteq> [] then
                        ''Issues detected: ''
                          @ join '', '' (map DetectedLabel.name (take 3 (AuditResult.negative_labels r)))
                      else ''Status determination unclear'')"
    and a: "reason (apply_manual_override audit0 ''auditor-7'' True ''floor was mopped'' 5)
              = Some (''Manual override: '' @ ''floor was mopped'')"
    using manual_override_reason [OF valid_inputs(6), of audit0 "''auditor-7''" True
            "''floor was mopped''" 5 default_rules md0 False 1 0]
    by blast
  have "AuditResult.negative_labels r
          = [\<lparr>DetectedLabel.name = ''Trash'', confidence = \<lparr>score_value = 92\<rparr>, is_negative = True\<rparr>]"
    using r by (auto simp: evaluate_eq [OF valid_inputs(6)] conv_trash new_AuditResult_def
                  post_init_fields)
  with s have "reason r = Some ''Issues detected: Trash''"
    by simp
  with r m a valid_inputs(6) show ?thesis
    by simp
qed

text \<open>
  C7. Right after construction, whatever \<open>negative_labels\<close> and \<open>reason\<close> arguments were
  passed, and after any run of \<open>apply_manual_override\<close> calls, the negative labels are the
  detected labels flagged negative and the reason is a non-empty string.
\<close>

theorem audit_result_invariant:
  "audit_invariant (new_AuditResult md dls conf st aid negs rsn an_time rv_by rv_time mo vp mv)
   \<and> audit_invariant
       (apply_overrides (new_AuditResult md dls conf st aid negs rsn an_time rv_by rv_time mo vp mv)
          calls)"
  by (simp add: new_AuditResult_def post_init_invariant apply_overrides_invariant)

section \<open>Manual review\<close>

text \<open>
  C8. After \<open>apply_manual_override(reviewer_id, is_clean, notes)\<close> the override flag is
  \<open>is_clean\<close>, the status is \<open>CLEAN\<close> for a true \<open>is_clean\<close> and \<open>NOT_CLEAN\<close> otherwise,
  the reviewer is \<open>reviewer_id\<close>, the review time is the clock reading, the reason is the
  message built from the notes; \<open>is_finalized\<close> is true exactly when a reviewer is
  recorded, and so it is true after the call.
\<close>

theorem apply_manual_override_post:
  "manual_override (apply_manual_override self reviewer_id is_clean notes now) = Some is_clean
   \<and> status (apply_manual_override self reviewer_id is_clean notes now)
       = (if is_clean then CLEAN else NOT_CLEAN)
   \<and> reviewed_by (apply_manual_override self reviewer_id is_clean notes now) = Some reviewer_id
   \<and> reviewed_at (apply_manual_override self reviewer_id is_clean notes now) = Some now
   \<and> reason (apply_manual_override self reviewer_id is_clean notes now)
       = Some (''Manual override: '' @ notes)
   \<and> is_finalized other = (reviewed_by other \<noteq> None)
   \<and> is_finalized (apply_manual_override self reviewer_id is_clean notes now)"
  by (simp add: apply_manual_override_def is_finalized_def)

text \<open>
  C10. \<open>apply_manual_override\<close> writes only the override flag, the status, the reviewer,
  the review time and the reason: the identity, the image metadata, both label lists,
  the confidence, the analysis time, the provider and the model version stay as they were.
\<close>

theorem apply_manual_override_frame:
  "audit_id (apply_manual_override self reviewer_id is_clean notes now) = audit_id self
   \<and> image_metadata (apply_manual_override self reviewer_id is_clean notes now) = image_metadata self
   \<and> detected_labels (apply_manual_override self reviewer_id is_clean notes now) = detected_labels self
   \<and> AuditResult.negative_labels (apply_manual_override self reviewer_id is_clean notes now)
       = AuditResult.negative_labels self
   \<and> overall_confidence (apply_manual_override self reviewer_id is_clean notes now)
       = overall_confidence self
   \<and> analyzed_at (apply_manual_override self reviewer_id is_clean notes now) = analyzed_at self
   \<and> vision_provider (apply_manual_override self reviewer_id is_clean notes now) = vision_provider self
   \<and> AuditResult.model_version (apply_manual_override self reviewer_id is_clean notes now)
       = AuditResult.model_version self"
  by (simp add: apply_manual_override_def)

section \<open>Image metadata\<close>

text \<open>
  C9. The claim: an image whose two dimensions are known is invalid when its width is below
  640 or its height below 480. The code, evaluated on a width of 0 and a height of 480
  (both known, 2048 bytes): the test \<open>width_px and height_px\<close> is false for a zero
  dimension, the resolution check is skipped, and the image is reported valid.
\<close>

theorem is_valid_for_analysis_zero_width:
  "width_px (md0\<lparr>width_px := Some 0, height_px := Some 480\<rparr>) = Some 0
   \<and> height_px (md0\<lparr>width_px := Some 0, height_px := Some 480\<rparr>) = Some 480
   \<and> is_valid_for_analysis (md0\<lparr>width_px := Some 0, height_px := Some 480\<rparr>) = True"
  by (simp add: is_valid_for_analysis_def md0_def truthy_def)

end
